theory Spec2Isabelle
  imports
    Complex_Main
    "HOL-Library.Char_ord"
    "HOL-Library.List_Lexorder"
    "HOL-Library.Product_Lexorder"
    "HOL-Library.AList"
begin

section \<open>Values of the Python program\<close>

text \<open>
  The aggregation engine of the exporter: the completion estimator
  (\<^verbatim>\<open>_percent_from_row\<close>), the two aggregators (\<^verbatim>\<open>aggregate_series\<close>,
  \<^verbatim>\<open>aggregate_movies\<close>) and the availability resolver (\<^verbatim>\<open>count_available_episodes\<close>,
  \<^verbatim>\<open>compute_available_after\<close>) with the \<^verbatim>\<open>call_api\<close> it uses. Logging, the command
  line, the paging of the history and the CSV and JSON writers are left out.
\<close>

text \<open>
  The program (\<^verbatim>\<open>src/main.py\<close>) works on decoded JSON: every history row and every
  metadata answer is a \<^verbatim>\<open>Dict[str, Any]\<close>. A JSON object is an association list in
  the order of the document; a key that occurs twice keeps its last value, as
  \<^verbatim>\<open>json.loads\<close> does. Numbers of a JSON document are finite. Strings are the UTF-8
  bytes of the Python string: equality and the lexicographic order of byte lists agree
  with Python's comparison by code point.
\<close>

datatype json =
    JNull
  | JBool bool
  | JInt int
  | JFloat real
  | JStr string
  | JList "json list"
  | JDict "(string \<times> json) list"

type_synonym row = "(string \<times> json) list"

text \<open>
  A Python float that the program computes. Finite values are exact reals: the rounding
  and the overflow of binary64 are not part of the model, and the two zeros are one value
  (they compare equal, and a division by either raises). The infinities and NaN are
  values, since \<^verbatim>\<open>float("inf")\<close> and \<^verbatim>\<open>float("nan")\<close> parse.
\<close>

datatype pyfloat = Fin real | PInf | NInf | NaN

datatype error =
    TypeError
  | ValueError
  | AttributeError
  | KeyError
  | ZeroDivisionError
  | RuntimeError
  | TransportError

text \<open>
  What the interpreter and the operating system decide, and the program only calls:
  parsing a string as a float or an int (\<open>None\<close> is \<^verbatim>\<open>ValueError\<close>), \<^verbatim>\<open>str()\<close> of a
  float, a list or a dict, \<^verbatim>\<open>time.strftime("%Y-%m-%d %H:%M:%S", time.localtime(n))\<close>
  (which depends on the time zone; \<open>None\<close> is a raised error) and \<^verbatim>\<open>str.lower\<close>.
  Every function below takes these as the parameter \<open>rt\<close>.
\<close>

record runtime =
  rt_float_of_str :: "string \<Rightarrow> pyfloat option"
  rt_int_of_str :: "string \<Rightarrow> int option"
  rt_repr :: "json \<Rightarrow> string"
  rt_strftime_local :: "int \<Rightarrow> string option"
  rt_lower :: "string \<Rightarrow> string"

subsection \<open>Truth value, \<^verbatim>\<open>or\<close>, \<^verbatim>\<open>dict.get\<close>\<close>

fun truthy :: "json \<Rightarrow> bool" where
  "truthy JNull = False"
| "truthy (JBool b) = b"
| "truthy (JInt i) = (i \<noteq> 0)"
| "truthy (JFloat x) = (x \<noteq> 0)"
| "truthy (JStr s) = (s \<noteq> [])"
| "truthy (JList xs) = (xs \<noteq> [])"
| "truthy (JDict kvs) = (kvs \<noteq> [])"

definition py_or :: "json \<Rightarrow> json \<Rightarrow> json" where
  "py_or a b = (if truthy a then a else b)"

definition dict_get :: "row \<Rightarrow> string \<Rightarrow> json" where
  "dict_get r k = (case map_of (rev r) k of None \<Rightarrow> JNull | Some v \<Rightarrow> v)"

definition has_key :: "row \<Rightarrow> string \<Rightarrow> bool" where
  "has_key r k = (k \<in> fst ` set r)"

subsection \<open>Float arithmetic and comparison\<close>

fun f_lt :: "pyfloat \<Rightarrow> pyfloat \<Rightarrow> bool" where
  "f_lt (Fin a) (Fin b) = (a < b)"
| "f_lt (Fin a) PInf = True"
| "f_lt NInf (Fin b) = True"
| "f_lt NInf PInf = True"
| "f_lt _ _ = False"

definition f_le :: "pyfloat \<Rightarrow> pyfloat \<Rightarrow> bool" where
  "f_le a b = (f_lt a b \<or> (a = b \<and> a \<noteq> NaN))"

definition f_gt :: "pyfloat \<Rightarrow> pyfloat \<Rightarrow> bool" where
  "f_gt a b = f_lt b a"

definition f_ge :: "pyfloat \<Rightarrow> pyfloat \<Rightarrow> bool" where
  "f_ge a b = f_le b a"

fun f_sgn :: "pyfloat \<Rightarrow> real" where
  "f_sgn (Fin a) = sgn a"
| "f_sgn PInf = 1"
| "f_sgn NInf = - 1"
| "f_sgn NaN = 0"

definition inf_of_sign :: "real \<Rightarrow> pyfloat" where
  "inf_of_sign s = (if s = 0 then NaN else if 0 < s then PInf else NInf)"

fun f_mul :: "pyfloat \<Rightarrow> pyfloat \<Rightarrow> pyfloat" where
  "f_mul NaN _ = NaN"
| "f_mul _ NaN = NaN"
| "f_mul (Fin a) (Fin b) = Fin (a * b)"
| "f_mul x y = inf_of_sign (f_sgn x * f_sgn y)"

fun f_add :: "pyfloat \<Rightarrow> pyfloat \<Rightarrow> pyfloat" where
  "f_add NaN _ = NaN"
| "f_add _ NaN = NaN"
| "f_add (Fin a) (Fin b) = Fin (a + b)"
| "f_add PInf NInf = NaN"
| "f_add NInf PInf = NaN"
| "f_add PInf _ = PInf"
| "f_add _ PInf = PInf"
| "f_add NInf _ = NInf"
| "f_add _ NInf = NInf"

text \<open>The quotient by a divisor that is not zero.\<close>

fun f_quot :: "pyfloat \<Rightarrow> pyfloat \<Rightarrow> pyfloat" where
  "f_quot NaN _ = NaN"
| "f_quot _ NaN = NaN"
| "f_quot (Fin a) (Fin b) = Fin (a / b)"
| "f_quot (Fin a) _ = Fin 0"
| "f_quot x (Fin b) = inf_of_sign (f_sgn x * sgn b)"
| "f_quot _ _ = NaN"

text \<open>Python raises \<^verbatim>\<open>ZeroDivisionError\<close> for a float division by zero.\<close>

definition f_div :: "pyfloat \<Rightarrow> pyfloat \<Rightarrow> error + pyfloat" where
  "f_div x y = (if y = Fin 0 then Inl ZeroDivisionError else Inr (f_quot x y))"

text \<open>
  \<^verbatim>\<open>max(a, b)\<close> keeps \<open>a\<close> unless \<open>b > a\<close>, and \<^verbatim>\<open>min(a, b)\<close> keeps \<open>a\<close> unless
  \<open>b < a\<close>: with a NaN the first argument wins.
\<close>

definition py_max :: "pyfloat \<Rightarrow> pyfloat \<Rightarrow> pyfloat" where
  "py_max a b = (if f_gt b a then b else a)"

definition py_min :: "pyfloat \<Rightarrow> pyfloat \<Rightarrow> pyfloat" where
  "py_min a b = (if f_lt b a then b else a)"

text \<open>\<^verbatim>\<open>round(x, 2)\<close>: to the nearest hundredth, a tie to the even one.\<close>

definition round_half_even :: "real \<Rightarrow> int" where
  "round_half_even y =
     (let f = \<lfloor>y\<rfloor>; d = y - of_int f
      in if d < 1 / 2 then f else if 1 / 2 < d then f + 1 else if even f then f else f + 1)"

fun round2 :: "pyfloat \<Rightarrow> pyfloat" where
  "round2 (Fin x) = Fin (of_int (round_half_even (x * 100)) / 100)"
| "round2 x = x"

subsection \<open>Conversions\<close>

definition trunc :: "real \<Rightarrow> int" where
  "trunc x = (if 0 \<le> x then \<lfloor>x\<rfloor> else \<lceil>x\<rceil>)"

fun py_float :: "runtime \<Rightarrow> json \<Rightarrow> error + pyfloat" where
  "py_float rt JNull = Inl TypeError"
| "py_float rt (JBool b) = Inr (Fin (if b then 1 else 0))"
| "py_float rt (JInt i) = Inr (Fin (of_int i))"
| "py_float rt (JFloat x) = Inr (Fin x)"
| "py_float rt (JStr s) =
     (case rt_float_of_str rt s of None \<Rightarrow> Inl ValueError | Some f \<Rightarrow> Inr f)"
| "py_float rt (JList xs) = Inl TypeError"
| "py_float rt (JDict kvs) = Inl TypeError"

fun py_int :: "runtime \<Rightarrow> json \<Rightarrow> error + int" where
  "py_int rt JNull = Inl TypeError"
| "py_int rt (JBool b) = Inr (if b then 1 else 0)"
| "py_int rt (JInt i) = Inr i"
| "py_int rt (JFloat x) = Inr (trunc x)"
| "py_int rt (JStr s) =
     (case rt_int_of_str rt s of None \<Rightarrow> Inl ValueError | Some i \<Rightarrow> Inr i)"
| "py_int rt (JList xs) = Inl TypeError"
| "py_int rt (JDict kvs) = Inl TypeError"

fun digits :: "nat \<Rightarrow> string" where
  "digits n =
     (if n < 10 then [char_of (48 + n)]
      else digits (n div 10) @ [char_of (48 + n mod 10)])"

declare digits.simps [simp del]

fun py_str :: "runtime \<Rightarrow> json \<Rightarrow> string" where
  "py_str rt (JStr s) = s"
| "py_str rt JNull = ''None''"
| "py_str rt (JBool b) = (if b then ''True'' else ''False'')"
| "py_str rt (JInt i) = (if i < 0 then CHR ''-'' # digits (nat (- i)) else digits (nat i))"
| "py_str rt v = rt_repr rt v"

section \<open>Completion estimator\<close>

text \<open>\<^verbatim>\<open>_percent_from_row\<close>, lines 94 to 115: the explicit field first.\<close>

definition explicit_percent :: "runtime \<Rightarrow> row \<Rightarrow> pyfloat option" where
  "explicit_percent rt r =
     (let pc = dict_get r ''percent_complete''
      in if pc \<noteq> JNull
         then (case py_float rt pc of Inr f \<Rightarrow> Some f | Inl e \<Rightarrow> None)
         else None)"

definition row_duration :: "row \<Rightarrow> json" where
  "row_duration r = py_or (dict_get r ''duration'') (dict_get r ''media_duration'')"

definition percent_from_offset :: "runtime \<Rightarrow> row \<Rightarrow> pyfloat option" where
  "percent_from_offset rt r =
     (case py_float rt (dict_get r ''view_offset'') of
        Inl e \<Rightarrow> None
      | Inr off \<Rightarrow>
          (case py_float rt (row_duration r) of
             Inl e \<Rightarrow> None
           | Inr dur \<Rightarrow>
               if f_gt dur (Fin 0) then
                 (case (if f_gt off (f_mul dur (Fin 5)) then f_div off (Fin 1000) else Inr off) of
                    Inl e \<Rightarrow> None
                  | Inr off1 \<Rightarrow>
                      (case (if f_gt dur (Fin 100000) then f_div dur (Fin 1000) else Inr dur) of
                         Inl e \<Rightarrow> None
                       | Inr dur1 \<Rightarrow>
                           (case f_div off1 dur1 of
                              Inl e \<Rightarrow> None
                            | Inr q \<Rightarrow>
                                Some (py_max (Fin 0) (py_min (Fin 100) (f_mul q (Fin 100)))))))
               else None))"

definition percent_from_row :: "runtime \<Rightarrow> row \<Rightarrow> pyfloat option" where
  "percent_from_row rt r =
     (case explicit_percent rt r of
        Some f \<Rightarrow> Some f
      | None \<Rightarrow> percent_from_offset rt r)"

section \<open>Series aggregator\<close>

text \<open>\<^verbatim>\<open>_ts_readable\<close>, lines 86 to 92. A \<^verbatim>\<open>bool\<close> is an \<^verbatim>\<open>int\<close> for \<^verbatim>\<open>isinstance\<close>.\<close>

definition fmt_local :: "runtime \<Rightarrow> int \<Rightarrow> string" where
  "fmt_local rt n = (case rt_strftime_local rt n of None \<Rightarrow> [] | Some s \<Rightarrow> s)"

fun ts_readable :: "runtime \<Rightarrow> json \<Rightarrow> string" where
  "ts_readable rt (JBool b) = fmt_local rt (if b then 1 else 0)"
| "ts_readable rt (JInt i) = fmt_local rt i"
| "ts_readable rt (JFloat x) = fmt_local rt (trunc x)"
| "ts_readable rt v = (if truthy v then py_str rt v else [])"

definition row_timestamp :: "row \<Rightarrow> json" where
  "row_timestamp r =
     py_or (py_or (py_or (dict_get r ''date'') (dict_get r ''stopped''))
                  (dict_get r ''started''))
           (dict_get r ''last_played'')"

definition show_key_of :: "runtime \<Rightarrow> row \<Rightarrow> string" where
  "show_key_of rt r = py_str rt (py_or (dict_get r ''grandparent_rating_key'') (JStr []))"

definition show_title_of :: "row \<Rightarrow> json" where
  "show_title_of r =
     py_or (py_or (py_or (dict_get r ''grandparent_title'') (dict_get r ''full_title''))
                  (dict_get r ''title''))
           (JStr ''Unbekannt'')"

definition ep_key_of :: "runtime \<Rightarrow> row \<Rightarrow> string" where
  "ep_key_of rt r = py_str rt (py_or (dict_get r ''rating_key'') (JStr []))"

definition is_watched :: "pyfloat \<Rightarrow> pyfloat option \<Rightarrow> bool" where
  "is_watched watched_threshold pct =
     (case pct of None \<Rightarrow> True | Some p \<Rightarrow> f_ge p watched_threshold)"

text \<open>
  A key of the dictionary \<open>series\<close>: \<^verbatim>\<open>show_key or show_title\<close> is the string
  \<open>show_key\<close>, or else the title, which is any JSON value. Python's dictionary takes
  \<^verbatim>\<open>True\<close>, \<^verbatim>\<open>1\<close> and \<^verbatim>\<open>1.0\<close> for one key, and raises \<^verbatim>\<open>TypeError\<close> for a list or a
  dict.
\<close>

datatype dkey = KNone | KStr string | KNum real

fun hash_key :: "json \<Rightarrow> error + dkey" where
  "hash_key JNull = Inr KNone"
| "hash_key (JBool b) = Inr (KNum (if b then 1 else 0))"
| "hash_key (JInt i) = Inr (KNum (of_int i))"
| "hash_key (JFloat x) = Inr (KNum x)"
| "hash_key (JStr s) = Inr (KStr s)"
| "hash_key (JList xs) = Inl TypeError"
| "hash_key (JDict kvs) = Inl TypeError"

definition series_key :: "runtime \<Rightarrow> row \<Rightarrow> error + dkey" where
  "series_key rt r =
     (let show_key = show_key_of rt r
      in if show_key \<noteq> [] then Inr (KStr show_key) else hash_key (show_title_of r))"

text \<open>
  A bucket while the loop runs. The two counters \<^verbatim>\<open>unique_episodes_watched\<close> and
  \<^verbatim>\<open>episodes_partial\<close> of the Python dict are placeholders until the finalisation
  writes them, so they are fields of the finished row only.
\<close>

record show_bucket =
  b_show_title :: json
  b_show_rating_key :: string
  b_avg_episode_percent :: pyfloat
  b_first_watched :: string
  b_last_watched :: string
  plays_count :: nat
  seen_watched :: "string set"
  seen_partial :: "string set"

datatype cell = CStr string | CFloat pyfloat

record show_row =
  show_title :: json
  show_rating_key :: string
  unique_episodes_watched :: nat
  episodes_partial :: nat
  avg_episode_percent :: pyfloat
  first_watched :: string
  last_watched :: string
  available_episodes :: int
  percent_watched_show :: cell

definition new_bucket :: "runtime \<Rightarrow> row \<Rightarrow> show_bucket" where
  "new_bucket rt r =
     (let tsr = ts_readable rt (row_timestamp r)
      in \<lparr>b_show_title = show_title_of r,
          b_show_rating_key = show_key_of rt r,
          b_avg_episode_percent = Fin 0,
          b_first_watched = tsr,
          b_last_watched = tsr,
          plays_count = 0,
          seen_watched = {},
          seen_partial = {}\<rparr>)"

text \<open>Lines 186 to 191: the running average, then the play counter.\<close>

definition update_avg :: "pyfloat option \<Rightarrow> show_bucket \<Rightarrow> error + show_bucket" where
  "update_avg pct b =
     (case pct of
        None \<Rightarrow> Inr (b\<lparr>plays_count := plays_count b + 1\<rparr>)
      | Some p \<Rightarrow>
          (case f_div (f_add (f_mul (b_avg_episode_percent b) (Fin (real (plays_count b)))) p)
                      (Fin (real (plays_count b + 1))) of
             Inl e \<Rightarrow> Inl e
           | Inr a \<Rightarrow>
               Inr (b\<lparr>b_avg_episode_percent := a, plays_count := plays_count b + 1\<rparr>)))"

text \<open>Lines 193 to 200: the two sets of episode keys.\<close>

definition update_seen :: "string \<Rightarrow> bool \<Rightarrow> show_bucket \<Rightarrow> show_bucket" where
  "update_seen ep_key watched b =
     (if ep_key \<noteq> [] then
        (if watched then b\<lparr>seen_watched := insert ep_key (seen_watched b)\<rparr>
         else if ep_key \<notin> seen_watched b
              then b\<lparr>seen_partial := insert ep_key (seen_partial b)\<rparr>
              else b)
      else b)"

text \<open>Lines 202 to 207: first and last timestamp, compared as strings.\<close>

definition update_time :: "string \<Rightarrow> show_bucket \<Rightarrow> show_bucket" where
  "update_time tsr b =
     (if tsr \<noteq> [] then
        (let b1 = (if b_first_watched b = [] \<or> tsr < b_first_watched b
                   then b\<lparr>b_first_watched := tsr\<rparr> else b)
         in if b_last_watched b1 = [] \<or> b_last_watched b1 < tsr
            then b1\<lparr>b_last_watched := tsr\<rparr> else b1)
      else b)"

type_synonym series_state = "(dkey \<times> show_bucket) list"

text \<open>
  One turn of the loop of lines 165 to 207. \<^verbatim>\<open>setdefault\<close> finds the bucket or makes
  it; the dictionary keeps the order in which the keys came.
\<close>

definition series_step ::
  "runtime \<Rightarrow> pyfloat \<Rightarrow> series_state \<Rightarrow> row \<Rightarrow> error + series_state" where
  "series_step rt watched_threshold series r =
     (let ep_key = ep_key_of rt r;
          tsr = ts_readable rt (row_timestamp r);
          pct = percent_from_row rt r;
          watched = is_watched watched_threshold pct
      in case series_key rt r of
           Inl e \<Rightarrow> Inl e
         | Inr k \<Rightarrow>
             (let bucket = (case map_of series k of None \<Rightarrow> new_bucket rt r | Some b \<Rightarrow> b)
              in case update_avg pct bucket of
                   Inl e \<Rightarrow> Inl e
                 | Inr b1 \<Rightarrow>
                     Inr (AList.update k (update_time tsr (update_seen ep_key watched b1))
                            series)))"

fun series_loop ::
  "runtime \<Rightarrow> pyfloat \<Rightarrow> series_state \<Rightarrow> row list \<Rightarrow> error + series_state" where
  "series_loop rt thr series [] = Inr series"
| "series_loop rt thr series (r # rows) =
     (case series_step rt thr series r of
        Inl e \<Rightarrow> Inl e
      | Inr series' \<Rightarrow> series_loop rt thr series' rows)"

definition finalize :: "show_bucket \<Rightarrow> show_row" where
  "finalize b =
     \<lparr>show_title = b_show_title b,
      show_rating_key = b_show_rating_key b,
      unique_episodes_watched = card (seen_watched b),
      episodes_partial = card (seen_partial b),
      avg_episode_percent = round2 (b_avg_episode_percent b),
      first_watched = b_first_watched b,
      last_watched = b_last_watched b,
      available_episodes = 0,
      percent_watched_show = CStr []\<rparr>"

text \<open>
  \<^verbatim>\<open>list.sort(key=f)\<close>: the key of every element first (an error of \<open>f\<close> is the
  error of the sort), then a stable sort by the keys.
\<close>

fun sort_keys :: "('a \<Rightarrow> error + 'k) \<Rightarrow> 'a list \<Rightarrow> error + ('k \<times> 'a) list" where
  "sort_keys f [] = Inr []"
| "sort_keys f (x # xs) =
     (case f x of
        Inl e \<Rightarrow> Inl e
      | Inr k \<Rightarrow> (case sort_keys f xs of Inl e \<Rightarrow> Inl e | Inr ks \<Rightarrow> Inr ((k, x) # ks)))"

definition py_sort :: "('a \<Rightarrow> error + 'k :: linorder) \<Rightarrow> 'a list \<Rightarrow> error + 'a list" where
  "py_sort f xs =
     (case sort_keys f xs of Inl e \<Rightarrow> Inl e | Inr ks \<Rightarrow> Inr (map snd (sort_key fst ks)))"

text \<open>\<^verbatim>\<open>(x["show_title"] or "").lower()\<close>: only a string has \<^verbatim>\<open>lower\<close>.\<close>

definition title_sort_key :: "runtime \<Rightarrow> json \<Rightarrow> error + string" where
  "title_sort_key rt t =
     (case py_or t (JStr []) of JStr s \<Rightarrow> Inr (rt_lower rt s) | _ \<Rightarrow> Inl AttributeError)"

definition aggregate_series :: "runtime \<Rightarrow> row list \<Rightarrow> pyfloat \<Rightarrow> error + show_row list" where
  "aggregate_series rt rows watched_threshold =
     (case series_loop rt watched_threshold [] rows of
        Inl e \<Rightarrow> Inl e
      | Inr series \<Rightarrow>
          py_sort (\<lambda>x. title_sort_key rt (show_title x)) (map (\<lambda>(k, b). finalize b) series))"

section \<open>Movie aggregator\<close>

record movie_row =
  movie_title :: json
  year :: json
  plays :: nat
  max_percent :: pyfloat
  avg_percent :: pyfloat
  last_percent :: "pyfloat option"
  completed_any :: bool
  m_first_watched :: string
  m_last_watched :: string

definition movie_title_of :: "row \<Rightarrow> json" where
  "movie_title_of r =
     py_or (py_or (dict_get r ''title'') (dict_get r ''full_title'')) (JStr ''Unbekannt'')"

definition movie_year_of :: "row \<Rightarrow> json" where
  "movie_year_of r = py_or (dict_get r ''year'') (JStr [])"

text \<open>Line 262: the key of the bucket is always a string.\<close>

definition movie_key :: "runtime \<Rightarrow> row \<Rightarrow> string" where
  "movie_key rt r =
     (let key = py_str rt (py_or (py_or (dict_get r ''rating_key'')
                                        (dict_get r ''parent_rating_key''))
                                 (JStr []))
      in if key \<noteq> [] then key
         else py_str rt (movie_title_of r) @ '' ('' @ py_str rt (movie_year_of r) @ '')'')"

definition new_movie :: "runtime \<Rightarrow> row \<Rightarrow> movie_row" where
  "new_movie rt r =
     (let tsr = ts_readable rt (row_timestamp r)
      in \<lparr>movie_title = movie_title_of r,
          year = movie_year_of r,
          plays = 0,
          max_percent = Fin 0,
          avg_percent = Fin 0,
          last_percent = None,
          completed_any = False,
          m_first_watched = tsr,
          m_last_watched = tsr\<rparr>)"

text \<open>Lines 267 to 271: the counter first, then the three percents.\<close>

definition update_percents :: "pyfloat option \<Rightarrow> movie_row \<Rightarrow> error + movie_row" where
  "update_percents pct b0 =
     (let b = b0\<lparr>plays := plays b0 + 1\<rparr>
      in case pct of
           None \<Rightarrow> Inr b
         | Some p \<Rightarrow>
             (case f_div (f_add (f_mul (avg_percent b) (Fin (real (plays b - 1)))) p)
                         (Fin (real (plays b))) of
                Inl e \<Rightarrow> Inl e
              | Inr a \<Rightarrow>
                  Inr (b\<lparr>max_percent := py_max (max_percent b) p,
                         avg_percent := a,
                         last_percent := Some p\<rparr>)))"

definition update_movie_time :: "string \<Rightarrow> movie_row \<Rightarrow> movie_row" where
  "update_movie_time tsr b =
     (if tsr \<noteq> [] then
        (let b1 = (if m_first_watched b = [] \<or> tsr < m_first_watched b
                   then b\<lparr>m_first_watched := tsr\<rparr> else b)
         in if m_last_watched b1 = [] \<or> m_last_watched b1 < tsr
            then b1\<lparr>m_last_watched := tsr\<rparr> else b1)
      else b)"

type_synonym movies_state = "(string \<times> movie_row) list"

definition movies_step ::
  "runtime \<Rightarrow> pyfloat \<Rightarrow> movies_state \<Rightarrow> row \<Rightarrow> error + movies_state" where
  "movies_step rt watched_threshold movies r =
     (let k = movie_key rt r;
          tsr = ts_readable rt (row_timestamp r);
          pct = percent_from_row rt r;
          watched = is_watched watched_threshold pct;
          bucket = (case map_of movies k of None \<Rightarrow> new_movie rt r | Some b \<Rightarrow> b)
      in case update_percents pct bucket of
           Inl e \<Rightarrow> Inl e
         | Inr b1 \<Rightarrow>
             (let b2 = (if watched then b1\<lparr>completed_any := True\<rparr> else b1)
              in Inr (AList.update k (update_movie_time tsr b2) movies)))"

fun movies_loop ::
  "runtime \<Rightarrow> pyfloat \<Rightarrow> movies_state \<Rightarrow> row list \<Rightarrow> error + movies_state" where
  "movies_loop rt thr movies [] = Inr movies"
| "movies_loop rt thr movies (r # rows) =
     (case movies_step rt thr movies r of
        Inl e \<Rightarrow> Inl e
      | Inr movies' \<Rightarrow> movies_loop rt thr movies' rows)"

definition finalize_movie :: "movie_row \<Rightarrow> movie_row" where
  "finalize_movie b =
     b\<lparr>avg_percent := round2 (avg_percent b),
       last_percent := (case last_percent b of None \<Rightarrow> None | Some p \<Rightarrow> Some (round2 p)),
       max_percent := round2 (max_percent b)\<rparr>"

definition movie_sort_key :: "runtime \<Rightarrow> movie_row \<Rightarrow> error + string \<times> string" where
  "movie_sort_key rt x =
     (case title_sort_key rt (movie_title x) of
        Inl e \<Rightarrow> Inl e
      | Inr t \<Rightarrow> Inr (t, py_str rt (py_or (year x) (JStr []))))"

definition aggregate_movies :: "runtime \<Rightarrow> row list \<Rightarrow> pyfloat \<Rightarrow> error + movie_row list" where
  "aggregate_movies rt rows watched_threshold =
     (case movies_loop rt watched_threshold [] rows of
        Inl e \<Rightarrow> Inl e
      | Inr movies \<Rightarrow>
          py_sort (movie_sort_key rt) (map (\<lambda>(k, b). finalize_movie b) movies))"

section \<open>Availability resolver\<close>

text \<open>
  The HTTP request of \<^verbatim>\<open>call_api\<close> (lines 32 to 34) is a parameter: from the URL and
  the query parameters to the decoded JSON body, or to the error that
  \<^verbatim>\<open>_session.get\<close>, \<^verbatim>\<open>raise_for_status\<close> or \<^verbatim>\<open>r.json\<close> raises. The server answers a
  request the same way each time it is asked.
\<close>

type_synonym transport = "string \<Rightarrow> row \<Rightarrow> error + json"

definition rstrip_slash :: "string \<Rightarrow> string" where
  "rstrip_slash s = rev (dropWhile (\<lambda>c. c = CHR ''/'') (rev s))"

definition call_api :: "transport \<Rightarrow> string \<Rightarrow> string \<Rightarrow> string \<Rightarrow> row \<Rightarrow> error + json" where
  "call_api http base_url apikey cmd params =
     (let url = rstrip_slash base_url @ ''/api/v2'';
          payload = [(''apikey'', JStr apikey), (''cmd'', JStr cmd)]
                    @ filter (\<lambda>(k, v). v \<noteq> JNull) params
      in case http url payload of
           Inl e \<Rightarrow> Inl e
         | Inr js \<Rightarrow>
             (case js of
                JDict d \<Rightarrow>
                  (case (if has_key d ''response'' then dict_get d ''response'' else JDict []) of
                     JDict resp \<Rightarrow>
                       if dict_get resp ''result'' \<noteq> JStr ''success'' then Inl RuntimeError
                       else if has_key resp ''data'' then Inr (dict_get resp ''data'')
                       else Inl KeyError
                   | _ \<Rightarrow> Inl AttributeError)
              | _ \<Rightarrow> Inl AttributeError))"

text \<open>
  Lines 127 to 129: the first of the three fields that is present and not null is
  converted and returned; \<open>Inr None\<close> is the loop ending without a return.
\<close>

fun first_count :: "runtime \<Rightarrow> row \<Rightarrow> string list \<Rightarrow> error + int option" where
  "first_count rt md [] = Inr None"
| "first_count rt md (k # ks) =
     (if has_key md k \<and> dict_get md k \<noteq> JNull
      then (case py_int rt (dict_get md k) of Inl e \<Rightarrow> Inl e | Inr n \<Rightarrow> Inr (Some n))
      else first_count rt md ks)"

definition fast_path ::
  "runtime \<Rightarrow> transport \<Rightarrow> string \<Rightarrow> string \<Rightarrow> string \<Rightarrow> error + int option" where
  "fast_path rt http base_url apikey rating_key =
     (case call_api http base_url apikey ''get_metadata''
             [(''rating_key'', JStr rating_key)] of
        Inl e \<Rightarrow> Inl e
      | Inr md \<Rightarrow>
          (case md of
             JDict d \<Rightarrow> first_count rt d [''leaf_count'', ''leafCount'', ''episode_count'']
           | _ \<Rightarrow> Inr None))"

text \<open>
  \<^verbatim>\<open>len\<close> of a list, of a dict (its distinct keys) and of a string (its code points:
  the bytes that do not continue a UTF-8 sequence); anything else has no length.
\<close>

fun py_len :: "json \<Rightarrow> error + nat" where
  "py_len (JList xs) = Inr (length xs)"
| "py_len (JDict kvs) = Inr (length (remdups (map fst kvs)))"
| "py_len (JStr s) =
     Inr (length (filter (\<lambda>c. \<not> (128 \<le> (of_char c :: nat) \<and> (of_char c :: nat) < 192)) s))"
| "py_len v = Inl TypeError"

text \<open>
  What a \<^verbatim>\<open>for\<close> loop runs over: the elements of a list, the keys of a dict, the
  characters of a string (one element for each byte here; the loop below fails on the
  first of them whatever it holds).
\<close>

fun py_iter :: "json \<Rightarrow> error + json list" where
  "py_iter (JList xs) = Inr xs"
| "py_iter (JDict kvs) = Inr (map JStr (remdups (map fst kvs)))"
| "py_iter (JStr s) = Inr (map (\<lambda>c. JStr [c]) s)"
| "py_iter v = Inl TypeError"

text \<open>Lines 148 to 153: the count of one season's answer, before \<^verbatim>\<open>int(cnt or 0)\<close>.\<close>

definition children_count :: "json \<Rightarrow> error + json" where
  "children_count eps =
     (case eps of
        JDict d \<Rightarrow>
          (let cnt = dict_get d ''children_count''
           in if cnt = JNull
              then (case py_len (py_or (dict_get d ''children_list'') (JList [])) of
                      Inl e \<Rightarrow> Inl e | Inr n \<Rightarrow> Inr (JInt (int n)))
              else Inr cnt)
      | _ \<Rightarrow>
          (case py_len (py_or eps (JList [])) of
             Inl e \<Rightarrow> Inl e | Inr n \<Rightarrow> Inr (JInt (int n))))"

text \<open>
  Lines 143 to 154 for one season \<open>s\<close>: what the turn adds to \<open>total_eps\<close>
  (\<open>0\<close> for the \<^verbatim>\<open>continue\<close> of a season without a key), or the error it raises.
\<close>

definition season_count ::
  "runtime \<Rightarrow> transport \<Rightarrow> string \<Rightarrow> string \<Rightarrow> json \<Rightarrow> error + int" where
  "season_count rt http base_url apikey s =
     (case s of
        JDict d \<Rightarrow>
          (let season_key = py_or (dict_get d ''rating_key'') (dict_get d ''ratingKey'')
           in if \<not> truthy season_key then Inr 0
              else (case call_api http base_url apikey ''get_children_metadata''
                           [(''rating_key'', season_key), (''media_type'', JStr ''season'')] of
                      Inl e \<Rightarrow> Inl e
                    | Inr eps \<Rightarrow>
                        (case children_count eps of
                           Inl e \<Rightarrow> Inl e
                         | Inr cnt \<Rightarrow> py_int rt (py_or cnt (JInt 0)))))
      | _ \<Rightarrow> Inl AttributeError)"

text \<open>
  The loop of line 142 inside the \<^verbatim>\<open>try\<close>: the value of \<open>total_eps\<close> when the loop
  ends, and the error that ended it, if one did.
\<close>

fun season_loop ::
  "runtime \<Rightarrow> transport \<Rightarrow> string \<Rightarrow> string \<Rightarrow> int \<Rightarrow> json list \<Rightarrow> int \<times> error option" where
  "season_loop rt http base_url apikey total_eps [] = (total_eps, None)"
| "season_loop rt http base_url apikey total_eps (s # ss) =
     (case season_count rt http base_url apikey s of
        Inl e \<Rightarrow> (total_eps, Some e)
      | Inr cnt \<Rightarrow> season_loop rt http base_url apikey (total_eps + cnt) ss)"

definition season_list_of :: "json \<Rightarrow> json" where
  "season_list_of seasons =
     (case seasons of
        JDict d \<Rightarrow> py_or (dict_get d ''children_list'') (JList [])
      | _ \<Rightarrow> py_or seasons (JList []))"

definition fallback ::
  "runtime \<Rightarrow> transport \<Rightarrow> string \<Rightarrow> string \<Rightarrow> string \<Rightarrow> int \<times> error option" where
  "fallback rt http base_url apikey rating_key =
     (case call_api http base_url apikey ''get_children_metadata''
             [(''rating_key'', JStr rating_key), (''media_type'', JStr ''show'')] of
        Inl e \<Rightarrow> (0, Some e)
      | Inr seasons \<Rightarrow>
          (case py_iter (season_list_of seasons) of
             Inl e \<Rightarrow> (0, Some e)
           | Inr ss \<Rightarrow> season_loop rt http base_url apikey 0 ss))"

text \<open>
  \<^verbatim>\<open>count_available_episodes\<close>, lines 118 to 157. An error of the fast path is passed
  over; an error of the fallback returns \<open>total_eps\<close> as it stands.
\<close>

definition count_available_episodes ::
  "runtime \<Rightarrow> transport \<Rightarrow> string \<Rightarrow> string \<Rightarrow> string \<Rightarrow> error + int" where
  "count_available_episodes rt http base_url apikey rating_key =
     (case fast_path rt http base_url apikey rating_key of
        Inr (Some n) \<Rightarrow> Inr n
      | _ \<Rightarrow>
          (case fallback rt http base_url apikey rating_key of
             (total_eps, Some e) \<Rightarrow> Inr total_eps
           | (total_eps, None) \<Rightarrow> Inr total_eps))"





section \<open>A runtime for the examples\<close>

text \<open>
  The examples below hold ASCII titles and reach none of the other four functions of
  the runtime: their keys, titles and timestamps are strings and their percents numbers.
\<close>

definition ascii_lower :: "char \<Rightarrow> char" where
  "ascii_lower c =
     (if 65 \<le> (of_char c :: nat) \<and> (of_char c :: nat) \<le> 90
      then char_of ((of_char c :: nat) + 32) else c)"

definition example_rt :: runtime where
  "example_rt =
     \<lparr>rt_float_of_str = (\<lambda>s. None),
      rt_int_of_str = (\<lambda>s. None),
      rt_repr = (\<lambda>v. []),
      rt_strftime_local = (\<lambda>n. None),
      rt_lower = map ascii_lower\<rparr>"

section \<open>Predicates and inputs of the properties\<close>

text \<open>A float of the closed interval from 0 to 100; NaN is outside of it.\<close>

definition in_percent_range :: "pyfloat \<Rightarrow> bool" where
  "in_percent_range f = (f_le (Fin 0) f \<and> f_le f (Fin 100))"

text \<open>
  A history row of the examples: an episode of the show \<open>show_key\<close>, played to
  \<open>pc\<close> percent (\<open>JNull\<close> for a row without the percent).
\<close>

definition episode_play :: "string \<Rightarrow> string \<Rightarrow> string \<Rightarrow> json \<Rightarrow> row" where
  "episode_play show_key title ep_key pc =
     [(''grandparent_rating_key'', JStr show_key), (''grandparent_title'', JStr title),
      (''rating_key'', JStr ep_key), (''percent_complete'', pc)]"

section \<open>Abbreviations of the proofs\<close>

text \<open>The average that lines 188 to 190 store after a play with the percent \<open>pct\<close>.\<close>

definition avg_after :: "pyfloat option \<Rightarrow> show_bucket \<Rightarrow> pyfloat" where
  "avg_after pct b =
     (case pct of
        None \<Rightarrow> b_avg_episode_percent b
      | Some p \<Rightarrow>
          f_quot (f_add (f_mul (b_avg_episode_percent b) (Fin (real (plays_count b)))) p)
                 (Fin (real (plays_count b + 1))))"

text \<open>The bucket after one turn of the loop.\<close>

definition bucket_after :: "runtime \<Rightarrow> pyfloat \<Rightarrow> row \<Rightarrow> show_bucket \<Rightarrow> show_bucket" where
  "bucket_after rt thr r b =
     update_time (ts_readable rt (row_timestamp r))
       (update_seen (ep_key_of rt r) (is_watched thr (percent_from_row rt r))
          (b\<lparr>b_avg_episode_percent := avg_after (percent_from_row rt r) b,
             plays_count := plays_count b + 1\<rparr>))"

text \<open>The bucket that \<^verbatim>\<open>setdefault\<close> returns: the one stored under the key, or a new one.\<close>

definition bucket_before :: "runtime \<Rightarrow> series_state \<Rightarrow> dkey \<Rightarrow> row \<Rightarrow> show_bucket" where
  "bucket_before rt series k r = (case map_of series k of None \<Rightarrow> new_bucket rt r | Some b \<Rightarrow> b)"

text \<open>The part of a finished row that the deduplication decides: the show and its two counters.\<close>

definition row_counts :: "show_row \<Rightarrow> json \<times> string \<times> nat \<times> nat" where
  "row_counts x = (show_title x, show_rating_key x, unique_episodes_watched x, episodes_partial x)"

text \<open>The same part of a bucket of the loop: the show and its two sets.\<close>

definition core :: "show_bucket \<Rightarrow> json \<times> string \<times> string set \<times> string set" where
  "core b = (b_show_title b, b_show_rating_key b, seen_watched b, seen_partial b)"

text \<open>The episode of a play is in the sets already, so that the play adds nothing to them.\<close>

definition settled :: "string \<Rightarrow> bool \<Rightarrow> show_bucket \<Rightarrow> bool" where
  "settled ep w b = (ep = [] \<or> (if w then ep \<in> seen_watched b
                                 else ep \<in> seen_watched b \<or> ep \<in> seen_partial b))"

text \<open>A row whose bucket exists and whose episode is settled there.\<close>

definition absorbed :: "runtime \<Rightarrow> pyfloat \<Rightarrow> row \<Rightarrow> series_state \<Rightarrow> bool" where
  "absorbed rt thr r st =
     (\<exists>k b. series_key rt r = Inr k \<and> map_of st k = Some b
        \<and> settled (ep_key_of rt r) (is_watched thr (percent_from_row rt r)) b)"

text \<open>The counters of the two sets.\<close>

definition core_counts :: "json \<times> string \<times> string set \<times> string set \<Rightarrow> json \<times> string \<times> nat \<times> nat" where
  "core_counts c = (case c of (t, k, sw, sp) \<Rightarrow> (t, k, card sw, card sp))"

section \<open>Inputs of the examples\<close>



text \<open>A history row of a movie.\<close>

definition movie_play :: "string \<Rightarrow> string \<Rightarrow> json \<Rightarrow> row" where
  "movie_play key title pc =
     [(''rating_key'', JStr key), (''title'', JStr title), (''percent_complete'', pc)]"

text \<open>
  A server for the examples. It knows the leaf count \<open>c\<close> of \<open>show2\<close>. Of \<open>show1\<close>
  it has no metadata, but three seasons: the first answers with the count \<open>c\<close>, the
  second with a list of four episodes, and the request for the third fails.
\<close>

definition api_answer :: "json \<Rightarrow> json" where
  "api_answer d = JDict [(''response'', JDict [(''result'', JStr ''success''), (''data'', d)])]"

definition example_http :: "json \<Rightarrow> transport" where
  "example_http c url payload =
     (let cmd = dict_get payload ''cmd''; key = dict_get payload ''rating_key''
      in if cmd = JStr ''get_metadata'' \<and> key = JStr ''show2''
         then Inr (api_answer (JDict [(''leaf_count'', c)]))
         else if cmd = JStr ''get_children_metadata'' \<and> key = JStr ''show1''
         then Inr (api_answer (JList [JDict [(''rating_key'', JStr ''s1'')],
                                      JDict [(''rating_key'', JStr ''s2'')],
                                      JDict [(''rating_key'', JStr ''s3'')]]))
         else if cmd = JStr ''get_children_metadata'' \<and> key = JStr ''s1''
         then Inr (api_answer (JDict [(''children_count'', c)]))
         else if cmd = JStr ''get_children_metadata'' \<and> key = JStr ''s2''
         then Inr (api_answer (JList [JDict [], JDict [], JDict [], JDict []]))
         else Inl TransportError)"


section \<open>Abbreviations of the proofs about movies\<close>

text \<open>The counter \<^verbatim>\<open>plays\<close> of the bucket under a key, \<open>0\<close> when there is none.\<close>

definition plays_at :: "movies_state \<Rightarrow> string \<Rightarrow> nat" where
  "plays_at movies k = (case map_of movies k of None \<Rightarrow> 0 | Some b \<Rightarrow> plays b)"

text \<open>The bucket under a key, if there is one, has seen no percent yet.\<close>

definition quiet :: "movies_state \<Rightarrow> string \<Rightarrow> bool" where
  "quiet movies k =
     (case map_of movies k of
        None \<Rightarrow> True
      | Some b \<Rightarrow> completed_any b \<and> max_percent b = Fin 0 \<and> avg_percent b = Fin 0
                  \<and> last_percent b = None)"

section \<open>The completion estimator\<close>

lemma clamp_in_range: "in_percent_range (py_max (Fin 0) (py_min (Fin 100) x))"
  by (cases x) (simp_all add: in_percent_range_def py_max_def py_min_def f_gt_def f_le_def)

lemma offset_in_range: "percent_from_offset rt r = Some f \<Longrightarrow> in_percent_range f"
  by (auto simp: percent_from_offset_def clamp_in_range split: sum.splits if_splits)

text \<open>
  C3, as the code has it. An explicit \<^verbatim>\<open>percent_complete\<close> of 150 is returned as
  150.0: line 98 returns \<^verbatim>\<open>float(pc)\<close> and only line 112 clamps.
\<close>

theorem explicit_percent_not_clamped:
  "percent_from_row example_rt [(''percent_complete'', JInt 150)] = Some (Fin 150)
   \<and> \<not> in_percent_range (Fin 150)"
  by (simp add: percent_from_row_def explicit_percent_def dict_get_def in_percent_range_def
      f_le_def)

text \<open>
  C3, amended: when the event has no explicit percent that parses, the estimator returns
  absent or a float between 0 and 100. (With an explicit percent that parses, the result
  is that value, whatever it is: see C4.)
\<close>

theorem derived_percent_in_range:
  "explicit_percent rt r = None \<Longrightarrow>
   (case percent_from_row rt r of None \<Rightarrow> True | Some f \<Rightarrow> in_percent_range f)"
  by (simp add: percent_from_row_def offset_in_range split: option.splits)

theorem derived_percent_in_range_witness:
  "explicit_percent example_rt [(''view_offset'', JInt 30), (''duration'', JInt 60)] = None
   \<and> percent_from_row example_rt [(''view_offset'', JInt 30), (''duration'', JInt 60)]
       = Some (Fin 50)
   \<and> in_percent_range (Fin 50)"
  using derived_percent_in_range
    [of example_rt "[(''view_offset'', JInt 30), (''duration'', JInt 60)]"]
  by (simp add: percent_from_row_def explicit_percent_def percent_from_offset_def
      row_duration_def py_or_def dict_get_def in_percent_range_def f_le_def f_gt_def f_div_def
      py_max_def py_min_def)

text \<open>
  C4: when \<^verbatim>\<open>float()\<close> of the field \<^verbatim>\<open>percent_complete\<close> succeeds with \<open>f\<close>, the
  estimator returns \<open>f\<close>, whatever the rest of the row holds.
\<close>

theorem explicit_percent_returned:
  "py_float rt (dict_get r ''percent_complete'') = Inr f \<Longrightarrow> percent_from_row rt r = Some f"
  by (cases "dict_get r ''percent_complete''")
     (auto simp: percent_from_row_def explicit_percent_def Let_def)

theorem explicit_percent_returned_witness:
  "py_float example_rt
     (dict_get [(''percent_complete'', JInt 150), (''view_offset'', JInt 30),
                (''duration'', JInt 60)] ''percent_complete'') = Inr (Fin 150)
   \<and> percent_from_row example_rt
       [(''percent_complete'', JInt 150), (''view_offset'', JInt 30), (''duration'', JInt 60)]
       = Some (Fin 150)"
  using explicit_percent_returned
    [of example_rt
        "[(''percent_complete'', JInt 150), (''view_offset'', JInt 30), (''duration'', JInt 60)]"
        "Fin 150"]
  by (simp add: dict_get_def)

text \<open>
  The duration of a row is of no use when both fields are missing, null or a zero.
\<close>

lemma no_duration_cases:
  assumes "dict_get r ''duration'' \<in> {JNull, JInt 0, JFloat 0}"
    and "dict_get r ''media_duration'' \<in> {JNull, JInt 0, JFloat 0}"
  shows "(\<exists>e. py_float rt (row_duration r) = Inl e) \<or> py_float rt (row_duration r) = Inr (Fin 0)"
  using assms by (auto simp: row_duration_def py_or_def)

text \<open>
  C5: with no explicit percent that parses, the estimator returns absent when the
  duration (\<^verbatim>\<open>duration\<close>, or \<^verbatim>\<open>media_duration\<close> when that is missing or false) does not
  convert to a float or converts to zero, and also when the position does not convert.
\<close>

theorem no_duration_is_absent:
  assumes "explicit_percent rt r = None"
    and "(\<exists>e. py_float rt (row_duration r) = Inl e)
         \<or> py_float rt (row_duration r) = Inr (Fin 0)
         \<or> (\<exists>e. py_float rt (dict_get r ''view_offset'') = Inl e)"
  shows "percent_from_row rt r = None"
  using assms
  by (auto simp: percent_from_row_def percent_from_offset_def f_gt_def split: sum.splits)

theorem no_duration_is_absent_witness:
  "percent_from_row example_rt [(''view_offset'', JInt 30), (''duration'', JInt 0)] = None"
  using no_duration_is_absent
    [of example_rt "[(''view_offset'', JInt 30), (''duration'', JInt 0)]"]
  by (simp add: explicit_percent_def row_duration_def py_or_def dict_get_def)

section \<open>The series aggregator on examples\<close>

lemmas series_eval =
  episode_play_def series_step_def series_key_def show_key_of_def show_title_of_def
  ep_key_of_def row_timestamp_def dict_get_def py_or_def percent_from_row_def
  explicit_percent_def percent_from_offset_def is_watched_def new_bucket_def update_avg_def
  update_seen_def update_time_def f_div_def f_ge_def f_le_def Let_def

lemmas finish_eval =
  aggregate_series_def finalize_def py_sort_def title_sort_key_def example_rt_def
  round_half_even_def

text \<open>
  C1, on the code: episode A of show 1 played to 40 percent and then to 95 percent
  (threshold 85) is in both sets when the loop ends, so the row counts it as watched and
  as partial; the same two plays in the other order count it as watched only.
\<close>

theorem partial_then_watched_in_both_sets:
  "series_loop example_rt (Fin 85) []
     [episode_play ''1'' ''X'' ''A'' (JInt 40), episode_play ''1'' ''X'' ''A'' (JInt 95)]
   = Inr [(KStr ''1'',
           \<lparr>b_show_title = JStr ''X'', b_show_rating_key = ''1'',
            b_avg_episode_percent = Fin (135 / 2), b_first_watched = [],
            b_last_watched = [], plays_count = 2,
            seen_watched = {''A''}, seen_partial = {''A''}\<rparr>)]
   \<and> aggregate_series example_rt
       [episode_play ''1'' ''X'' ''A'' (JInt 40), episode_play ''1'' ''X'' ''A'' (JInt 95)]
       (Fin 85)
     = Inr [\<lparr>show_title = JStr ''X'', show_rating_key = ''1'',
             unique_episodes_watched = 1, episodes_partial = 1,
             avg_episode_percent = Fin (135 / 2), first_watched = [], last_watched = [],
             available_episodes = 0, percent_watched_show = CStr []\<rparr>]
   \<and> aggregate_series example_rt
       [episode_play ''1'' ''X'' ''A'' (JInt 95), episode_play ''1'' ''X'' ''A'' (JInt 40)]
       (Fin 85)
     = Inr [\<lparr>show_title = JStr ''X'', show_rating_key = ''1'',
             unique_episodes_watched = 1, episodes_partial = 0,
             avg_episode_percent = Fin (135 / 2), first_watched = [], last_watched = [],
             available_episodes = 0, percent_watched_show = CStr []\<rparr>]"
  by (simp add: series_eval finish_eval)

text \<open>
  C2, on the code: the three plays of the spec's scenario (A at 95, A at 40, B without a
  percent) average to 67.5 in that order, and to 45 when the play without a percent comes
  first: \<^verbatim>\<open>_plays_count\<close> counts it, and the next update divides by the larger counter.
\<close>

theorem absent_percent_shifts_average:
  "aggregate_series example_rt
     [episode_play ''1'' ''X'' ''A'' (JInt 95), episode_play ''1'' ''X'' ''A'' (JInt 40),
      episode_play ''1'' ''X'' ''B'' JNull]
     (Fin 85)
   = Inr [\<lparr>show_title = JStr ''X'', show_rating_key = ''1'',
           unique_episodes_watched = 2, episodes_partial = 0,
           avg_episode_percent = Fin (135 / 2), first_watched = [], last_watched = [],
           available_episodes = 0, percent_watched_show = CStr []\<rparr>]
   \<and> aggregate_series example_rt
       [episode_play ''1'' ''X'' ''B'' JNull, episode_play ''1'' ''X'' ''A'' (JInt 95),
        episode_play ''1'' ''X'' ''A'' (JInt 40)]
       (Fin 85)
     = Inr [\<lparr>show_title = JStr ''X'', show_rating_key = ''1'',
             unique_episodes_watched = 2, episodes_partial = 0,
             avg_episode_percent = Fin 45, first_watched = [], last_watched = [],
             available_episodes = 0, percent_watched_show = CStr []\<rparr>]"
  by (simp add: series_eval finish_eval)

section \<open>Aggregating a history twice\<close>

lemma update_avg_eq:
  "update_avg pct b =
     Inr (b\<lparr>b_avg_episode_percent := avg_after pct b, plays_count := plays_count b + 1\<rparr>)"
  by (cases pct) (simp_all add: update_avg_def avg_after_def f_div_def)

lemma series_step_eq:
  "series_step rt thr st r =
     (case series_key rt r of
        Inl e \<Rightarrow> Inl e
      | Inr k \<Rightarrow> Inr (AList.update k (bucket_after rt thr r (bucket_before rt st k r)) st))"
  by (simp add: series_step_def update_avg_eq bucket_after_def bucket_before_def Let_def
      split: sum.splits)

lemma core_update_time [simp]: "core (update_time t b) = core b"
  by (simp add: core_def update_time_def Let_def)

lemma seen_bucket_after:
  "seen_watched (bucket_after rt thr r b) =
     (if ep_key_of rt r \<noteq> [] \<and> is_watched thr (percent_from_row rt r)
      then insert (ep_key_of rt r) (seen_watched b) else seen_watched b)"
  "seen_partial (bucket_after rt thr r b) =
     (if ep_key_of rt r \<noteq> [] \<and> \<not> is_watched thr (percent_from_row rt r)
         \<and> ep_key_of rt r \<notin> seen_watched b
      then insert (ep_key_of rt r) (seen_partial b) else seen_partial b)"
  "b_show_title (bucket_after rt thr r b) = b_show_title b"
  "b_show_rating_key (bucket_after rt thr r b) = b_show_rating_key b"
  by (simp_all add: bucket_after_def update_time_def update_seen_def Let_def)

lemma settled_after: "settled (ep_key_of rt r) (is_watched thr (percent_from_row rt r)) (bucket_after rt thr r b)"
  by (simp add: settled_def seen_bucket_after)

lemma settled_mono:
  "settled ep w b \<Longrightarrow> settled ep w (bucket_after rt thr r b)"
  by (auto simp: settled_def seen_bucket_after split: if_splits)

lemma settled_core:
  "settled (ep_key_of rt r) (is_watched thr (percent_from_row rt r)) b \<Longrightarrow> core (bucket_after rt thr r b) = core b"
  by (auto simp: settled_def core_def seen_bucket_after split: if_splits)

lemma step_absorbs:
  "series_step rt thr st r = Inr st' \<Longrightarrow> absorbed rt thr r st'"
  by (auto simp: series_step_eq absorbed_def AList.update_conv' settled_after split: sum.splits)

lemma absorbed_step:
  "absorbed rt thr r st \<Longrightarrow> series_step rt thr st r' = Inr st' \<Longrightarrow> absorbed rt thr r st'"
  by (auto simp: series_step_eq absorbed_def AList.update_conv' settled_mono bucket_before_def split: sum.splits)

lemma update_same_core:
  "map_of st k = Some b \<Longrightarrow> core v = core b \<Longrightarrow>
   map (\<lambda>(k, b). (k, core b)) (AList.update k v st) = map (\<lambda>(k, b). (k, core b)) st"
  by (induction st) (auto split: if_splits)

lemma absorbed_step_same:
  assumes "absorbed rt thr r st"
  shows "\<exists>st'. series_step rt thr st r = Inr st'
           \<and> map (\<lambda>(k, b). (k, core b)) st' = map (\<lambda>(k, b). (k, core b)) st"
proof -
  from assms obtain k b where k: "series_key rt r = Inr k" and b: "map_of st k = Some b"
    and s: "settled (ep_key_of rt r) (is_watched thr (percent_from_row rt r)) b"
    by (auto simp: absorbed_def)
  have "core (bucket_after rt thr r b) = core b"
    using s by (rule settled_core)
  with k b show ?thesis
    by (simp add: series_step_eq bucket_before_def update_same_core)
qed

lemma series_loop_append:
  "series_loop rt thr st (xs @ ys) =
     (case series_loop rt thr st xs of Inl e \<Rightarrow> Inl e | Inr st' \<Rightarrow> series_loop rt thr st' ys)"
  by (induction xs arbitrary: st) (auto split: sum.splits)

lemma loop_keeps_absorbed:
  "series_loop rt thr st rs = Inr st' \<Longrightarrow> absorbed rt thr r st \<Longrightarrow> absorbed rt thr r st'"
proof (induction rs arbitrary: st)
  case Nil
  then show ?case by simp
next
  case (Cons x rs)
  then show ?case
    by (auto split: sum.splits dest: absorbed_step)
qed

lemma loop_absorbs_all:
  "series_loop rt thr st rs = Inr st' \<Longrightarrow> r \<in> set rs \<Longrightarrow> absorbed rt thr r st'"
proof (induction rs arbitrary: st)
  case Nil
  then show ?case by simp
next
  case (Cons x rs)
  from Cons.prems(1) obtain st1 where s1: "series_step rt thr st x = Inr st1"
    and l: "series_loop rt thr st1 rs = Inr st'"
    by (auto split: sum.splits)
  show ?case
  proof (cases "r = x")
    case True
    from s1 have "absorbed rt thr x st1" by (rule step_absorbs)
    with l True show ?thesis by (auto dest: loop_keeps_absorbed)
  next
    case False
    with Cons.prems(2) have "r \<in> set rs" by simp
    with l show ?thesis by (rule Cons.IH)
  qed
qed

lemma loop_absorbed_same:
  "(\<forall>r\<in>set rs. absorbed rt thr r st) \<Longrightarrow>
   \<exists>st'. series_loop rt thr st rs = Inr st'
         \<and> map (\<lambda>(k, b). (k, core b)) st' = map (\<lambda>(k, b). (k, core b)) st"
proof (induction rs arbitrary: st)
  case Nil
  then show ?case by simp
next
  case (Cons x rs)
  then have "absorbed rt thr x st" by simp
  then obtain st1 where s1: "series_step rt thr st x = Inr st1"
    and c1: "map (\<lambda>(k, b). (k, core b)) st1 = map (\<lambda>(k, b). (k, core b)) st"
    using absorbed_step_same by blast
  have "\<forall>r\<in>set rs. absorbed rt thr r st1"
    using Cons.prems s1 by (auto dest: absorbed_step)
  from Cons.IH[OF this] obtain st' where "series_loop rt thr st1 rs = Inr st'"
    and "map (\<lambda>(k, b). (k, core b)) st' = map (\<lambda>(k, b). (k, core b)) st1"
    by blast
  with s1 c1 show ?case by simp
qed

lemma loop_twice_same:
  assumes "series_loop rt thr st rs = Inr st1"
  shows "\<exists>st2. series_loop rt thr st (rs @ rs) = Inr st2
          \<and> map (\<lambda>(k, b). (k, core b)) st2 = map (\<lambda>(k, b). (k, core b)) st1"
proof -
  have "\<forall>r\<in>set rs. absorbed rt thr r st1"
    using assms by (auto dest: loop_absorbs_all)
  from loop_absorbed_same[OF this] show ?thesis
    using assms by (simp add: series_loop_append)
qed

lemma loop_twice_error:
  "series_loop rt thr st rs = Inl e \<Longrightarrow> series_loop rt thr st (rs @ rs) = Inl e"
  by (simp add: series_loop_append)

lemma insort_key_map:
  "map h (insort_key (\<lambda>x. k (h x)) a xs) = insort_key k (h a) (map h xs)"
  by (induction xs) simp_all

lemma sort_key_map_commute:
  "map h (sort_key (\<lambda>x. k (h x)) xs) = sort_key k (map h xs)"
  by (induction xs) (simp_all add: insort_key_map)

lemma sort_keys_map:
  assumes "\<And>x. f x = g (p x)"
  shows "sort_keys g (map p xs) = map_sum id (map (\<lambda>(k, x). (k, p x))) (sort_keys f xs)"
  by (induction xs) (auto simp: assms split: sum.splits)

lemma py_sort_map:
  assumes "\<And>x. f x = g (p x)"
  shows "map_sum id (map p) (py_sort f xs) = py_sort g (map p xs)"
proof (cases "sort_keys f xs")
  case (Inl e)
  then show ?thesis
    by (simp add: py_sort_def sort_keys_map[of f g p, OF assms])
next
  case (Inr ks)
  have "map p (map snd (sort_key fst ks))
        = map snd (map (\<lambda>(k, x). (k, p x)) (sort_key (\<lambda>y. fst (case y of (k, x) \<Rightarrow> (k, p x))) ks))"
    by (simp add: case_prod_unfold comp_def)
  also have "\<dots> = map snd (sort_key fst (map (\<lambda>(k, x). (k, p x)) ks))"
    by (simp only: sort_key_map_commute)
  finally show ?thesis
    using Inr by (simp add: py_sort_def sort_keys_map[of f g p, OF assms])
qed

lemma row_counts_finalize: "row_counts (finalize b) = core_counts (core b)"
  by (simp add: row_counts_def finalize_def core_counts_def core_def)

lemma aggregate_series_counts:
  "map_sum id (map row_counts) (aggregate_series rt rows thr) =
     (case series_loop rt thr [] rows of
        Inl e \<Rightarrow> Inl e
      | Inr st \<Rightarrow>
          py_sort (\<lambda>c. title_sort_key rt (fst c))
            (map (\<lambda>(k, c). core_counts c) (map (\<lambda>(k, b). (k, core b)) st)))"
proof (cases "series_loop rt thr [] rows")
  case (Inl e)
  then show ?thesis by (simp add: aggregate_series_def)
next
  case (Inr st)
  have b: "map row_counts (map (\<lambda>(k, b). finalize b) st)
        = map (\<lambda>(k, c). core_counts c) (map (\<lambda>(k, b). (k, core b)) st)"
    by (simp add: row_counts_finalize case_prod_unfold comp_def)
  from Inr have "map_sum id (map row_counts) (aggregate_series rt rows thr)
        = map_sum id (map row_counts)
            (py_sort (\<lambda>x. title_sort_key rt (show_title x)) (map (\<lambda>(k, b). finalize b) st))"
    by (simp add: aggregate_series_def)
  also have "\<dots> = py_sort (\<lambda>c. title_sort_key rt (fst c))
                     (map row_counts (map (\<lambda>(k, b). finalize b) st))"
    by (rule py_sort_map) (simp add: row_counts_def)
  also have "\<dots> = py_sort (\<lambda>c. title_sort_key rt (fst c))
                     (map (\<lambda>(k, c). core_counts c) (map (\<lambda>(k, b). (k, core b)) st))"
    by (simp only: b)
  finally show ?thesis
    using Inr by simp
qed

text \<open>
  C6: the rows of a history followed by itself name the same shows in the same order, each
  with the same \<^verbatim>\<open>unique_episodes_watched\<close> and the same \<^verbatim>\<open>episodes_partial\<close>, as the rows
  of the history alone; and the one run raises exactly when the other does. Nothing is
  said about \<^verbatim>\<open>avg_episode_percent\<close>.
\<close>

theorem aggregate_twice_same_counts:
  "map_sum id (map row_counts) (aggregate_series rt (rows @ rows) thr)
   = map_sum id (map row_counts) (aggregate_series rt rows thr)"
proof (cases "series_loop rt thr [] rows")
  case (Inl e)
  then show ?thesis
    by (simp add: aggregate_series_counts loop_twice_error)
next
  case (Inr st1)
  from loop_twice_same[OF this] obtain st2 where
    "series_loop rt thr [] (rows @ rows) = Inr st2"
    "map (\<lambda>(k, b). (k, core b)) st2 = map (\<lambda>(k, b). (k, core b)) st1"
    by blast
  with Inr show ?thesis
    by (simp add: aggregate_series_counts)
qed

theorem aggregate_twice_same_counts_witness:
  "map_sum id (map row_counts)
     (aggregate_series example_rt
        ([episode_play ''1'' ''X'' ''A'' (JInt 40), episode_play ''1'' ''X'' ''A'' (JInt 95)]
         @ [episode_play ''1'' ''X'' ''A'' (JInt 40), episode_play ''1'' ''X'' ''A'' (JInt 95)])
        (Fin 85))
   = Inr [(JStr ''X'', ''1'', 1, 1)]"
  using aggregate_twice_same_counts
    [of example_rt
        "[episode_play ''1'' ''X'' ''A'' (JInt 40), episode_play ''1'' ''X'' ''A'' (JInt 95)]"
        "Fin 85"]
  by (simp add: series_eval finish_eval row_counts_def)

text \<open>
  The average of the doubled history can differ: a play without a percent and a play to
  100 percent average to 50, and twice the two plays to 62.5.
\<close>

lemma aggregate_twice_other_average:
  "map_sum id (map avg_episode_percent)
     (aggregate_series example_rt
        [episode_play ''1'' ''X'' ''B'' JNull, episode_play ''1'' ''X'' ''A'' (JInt 100)]
        (Fin 85))
   = Inr [Fin 50]
   \<and> map_sum id (map avg_episode_percent)
       (aggregate_series example_rt
          [episode_play ''1'' ''X'' ''B'' JNull, episode_play ''1'' ''X'' ''A'' (JInt 100),
           episode_play ''1'' ''X'' ''B'' JNull, episode_play ''1'' ''X'' ''A'' (JInt 100)]
          (Fin 85))
     = Inr [Fin (125 / 2)]"
  by (simp add: series_eval finish_eval)

section \<open>A play without an episode key\<close>





section \<open>Movies without a percent\<close>

lemma update_percents_total: "\<exists>b'. update_percents pct b = Inr b' \<and> plays b' = plays b + 1"
  by (cases pct) (simp_all add: update_percents_def f_div_def Let_def)

lemma update_percents_absent: "update_percents None b = Inr (b\<lparr>plays := plays b + 1\<rparr>)"
  by (simp add: update_percents_def)

lemma plays_update_movie_time [simp]: "plays (update_movie_time t b) = plays b"
  by (simp add: update_movie_time_def Let_def)

lemma movies_step_plays:
  "\<exists>b'. movies_step rt thr movies r = Inr (AList.update (movie_key rt r) b' movies)
        \<and> plays b' = plays_at movies (movie_key rt r) + 1"
proof -
  let ?b = "case map_of movies (movie_key rt r) of None \<Rightarrow> new_movie rt r | Some b \<Rightarrow> b"
  obtain b1 where b1: "update_percents (percent_from_row rt r) ?b = Inr b1"
    and p: "plays b1 = plays ?b + 1"
    using update_percents_total by blast
  have "plays ?b = plays_at movies (movie_key rt r)"
    by (simp add: plays_at_def new_movie_def Let_def split: option.splits)
  with b1 p show ?thesis
    by (auto simp: movies_step_def Let_def)
qed

lemma movies_step_plays_at:
  "movies_step rt thr movies r = Inr movies' \<Longrightarrow>
   plays_at movies' k = plays_at movies k + (if movie_key rt r = k then 1 else 0)"
  using movies_step_plays[of rt thr movies r]
  by (auto simp: plays_at_def AList.update_conv')

lemma movies_loop_total: "\<exists>movies'. movies_loop rt thr movies rows = Inr movies'"
proof (induction rows arbitrary: movies)
  case Nil
  show ?case by simp
next
  case (Cons r rows)
  obtain m1 where "movies_step rt thr movies r = Inr m1"
    using movies_step_plays[of rt thr movies r] by blast
  with Cons.IH[of m1] show ?case by simp
qed

lemma movies_loop_plays_at:
  "movies_loop rt thr movies rows = Inr movies' \<Longrightarrow>
   plays_at movies' k = plays_at movies k + length (filter (\<lambda>r. movie_key rt r = k) rows)"
proof (induction rows arbitrary: movies)
  case Nil
  then show ?case by simp
next
  case (Cons r rows)
  from Cons.prems obtain m1 where s: "movies_step rt thr movies r = Inr m1"
    and l: "movies_loop rt thr m1 rows = Inr movies'"
    by (auto split: sum.splits)
  from Cons.IH[OF l] movies_step_plays_at[OF s, of k] show ?case by simp
qed

lemma movies_step_quiet:
  assumes "movies_step rt thr movies r = Inr movies'"
    and "movie_key rt r = k \<longrightarrow> percent_from_row rt r = None"
    and "quiet movies k"
  shows "quiet movies' k"
proof (cases "movie_key rt r = k")
  case True
  with assms(2) have n: "percent_from_row rt r = None" by simp
  show ?thesis
    using assms(1,3) True
    by (auto simp: movies_step_def n update_percents_absent is_watched_def quiet_def Let_def
        AList.update_conv' update_movie_time_def new_movie_def split: option.splits)
next
  case False
  from movies_step_plays[of rt thr movies r] assms(1) obtain b' where
    "movies' = AList.update (movie_key rt r) b' movies" by auto
  with False assms(3) show ?thesis
    by (simp add: quiet_def AList.update_conv')
qed

lemma movies_loop_quiet:
  "movies_loop rt thr movies rows = Inr movies' \<Longrightarrow>
   \<forall>r\<in>set rows. movie_key rt r = k \<longrightarrow> percent_from_row rt r = None \<Longrightarrow>
   quiet movies k \<Longrightarrow> quiet movies' k"
proof (induction rows arbitrary: movies)
  case Nil
  then show ?case by simp
next
  case (Cons r rows)
  from Cons.prems(1) obtain m1 where s: "movies_step rt thr movies r = Inr m1"
    and l: "movies_loop rt thr m1 rows = Inr movies'"
    by (auto split: sum.splits)
  have "quiet m1 k"
    using s Cons.prems(2,3) by (auto intro: movies_step_quiet)
  with l Cons.prems(2) show ?case
    by (auto intro: Cons.IH)
qed

lemma sort_keys_snd: "sort_keys f xs = Inr ks \<Longrightarrow> map snd ks = xs"
  by (induction xs arbitrary: ks) (auto split: sum.splits)

lemma py_sort_set: "py_sort f xs = Inr out \<Longrightarrow> set out = set xs"
proof -
  assume a: "py_sort f xs = Inr out"
  then obtain ks where k: "sort_keys f xs = Inr ks" and o: "out = map snd (sort_key fst ks)"
    by (auto simp: py_sort_def split: sum.splits)
  have "set out = snd ` set ks" using o by simp
  also have "\<dots> = set (map snd ks)" by simp
  also have "\<dots> = set xs" using sort_keys_snd[OF k] by simp
  finally show ?thesis .
qed

text \<open>
  C10: when a history has a row of the movie \<open>k\<close> and no row of \<open>k\<close> has a percent, the
  loop ends with a bucket for \<open>k\<close> whose finished row counts every row of \<open>k\<close> as a
  play, has \<^verbatim>\<open>completed_any\<close> true, \<^verbatim>\<open>max_percent\<close> and \<^verbatim>\<open>avg_percent\<close> 0.0 and
  \<^verbatim>\<open>last_percent\<close> \<^verbatim>\<open>None\<close>; and that row is in what \<^verbatim>\<open>aggregate_movies\<close> returns.
\<close>

theorem movie_without_percent:
  assumes "r0 \<in> set rows" and "movie_key rt r0 = k"
    and "\<forall>r\<in>set rows. movie_key rt r = k \<longrightarrow> percent_from_row rt r = None"
  shows "\<exists>movies b. movies_loop rt thr [] rows = Inr movies \<and> map_of movies k = Some b
           \<and> plays (finalize_movie b) = length (filter (\<lambda>r. movie_key rt r = k) rows)
           \<and> completed_any (finalize_movie b)
           \<and> max_percent (finalize_movie b) = Fin 0
           \<and> avg_percent (finalize_movie b) = Fin 0
           \<and> last_percent (finalize_movie b) = None
           \<and> (\<forall>out. aggregate_movies rt rows thr = Inr out \<longrightarrow> finalize_movie b \<in> set out)"
proof -
  obtain movies where m: "movies_loop rt thr [] rows = Inr movies"
    using movies_loop_total by blast
  have n: "plays_at movies k = length (filter (\<lambda>r. movie_key rt r = k) rows)"
    using movies_loop_plays_at[OF m, of k] by (simp add: plays_at_def)
  have "filter (\<lambda>r. movie_key rt r = k) rows \<noteq> []"
    using assms(1,2) by (auto simp: filter_empty_conv)
  with n have "0 < plays_at movies k" by simp
  then obtain b where b: "map_of movies k = Some b"
    by (auto simp: plays_at_def split: option.splits)
  have q: "quiet movies k"
    using movies_loop_quiet[OF m assms(3)] by (simp add: quiet_def)
  have r: "round_half_even 0 = 0"
    by (simp add: round_half_even_def)
  have in_out: "finalize_movie b \<in> set out" if "aggregate_movies rt rows thr = Inr out" for out
  proof -
    from that m have
      "py_sort (movie_sort_key rt) (map (\<lambda>(k, b). finalize_movie b) movies) = Inr out"
      by (simp add: aggregate_movies_def)
    then have "set out = set (map (\<lambda>(k, b). finalize_movie b) movies)"
      by (rule py_sort_set)
    moreover have "(k, b) \<in> set movies"
      using b by (rule map_of_SomeD)
    ultimately show ?thesis by force
  qed
  show ?thesis
    using m b n q in_out
    by (auto simp: finalize_movie_def plays_at_def quiet_def r)
qed

lemmas movies_eval =
  movie_play_def movies_step_def movie_key_def movie_title_of_def movie_year_of_def
  row_timestamp_def dict_get_def py_or_def percent_from_row_def explicit_percent_def
  percent_from_offset_def is_watched_def new_movie_def update_percents_def
  update_movie_time_def f_div_def f_ge_def f_le_def py_max_def f_gt_def Let_def
  aggregate_movies_def finalize_movie_def py_sort_def movie_sort_key_def title_sort_key_def
  example_rt_def round_half_even_def

theorem movie_without_percent_witness:
  "aggregate_movies example_rt [movie_play ''m1'' ''M'' JNull, movie_play ''m1'' ''M'' JNull]
     (Fin 85)
   = Inr [\<lparr>movie_title = JStr ''M'', year = JStr [], plays = 2, max_percent = Fin 0,
           avg_percent = Fin 0, last_percent = None, completed_any = True,
           m_first_watched = [], m_last_watched = []\<rparr>]"
  using movie_without_percent
    [of "movie_play ''m1'' ''M'' JNull"
        "[movie_play ''m1'' ''M'' JNull, movie_play ''m1'' ''M'' JNull]"
        example_rt "''m1''" "Fin 85"]
  by (simp add: movies_eval)

text \<open>The movie of the spec's scenario: played to 90 and to 30 percent.\<close>

lemma movie_played_twice:
  "aggregate_movies example_rt
     [movie_play ''m1'' ''M'' (JInt 90), movie_play ''m1'' ''M'' (JInt 30)] (Fin 85)
   = Inr [\<lparr>movie_title = JStr ''M'', year = JStr [], plays = 2, max_percent = Fin 90,
           avg_percent = Fin 60, last_percent = Some (Fin 30), completed_any = True,
           m_first_watched = [], m_last_watched = []\<rparr>]"
  by (simp add: movies_eval)

section \<open>The availability resolver\<close>

lemmas api_eval =
  count_available_episodes_def fast_path_def fallback_def call_api_def example_http_def
  api_answer_def dict_get_def has_key_def rstrip_slash_def season_list_of_def season_count_def
  children_count_def py_or_def Let_def


lemma season_loop_partial:
  "map (season_count rt http base_url apikey) pre = map Inr cs \<Longrightarrow>
   season_count rt http base_url apikey s = Inl e \<Longrightarrow>
   season_loop rt http base_url apikey tot (pre @ s # post) = (tot + sum_list cs, Some e)"
proof (induction pre arbitrary: cs tot)
  case Nil
  then show ?case by simp
next
  case (Cons x pre)
  from Cons.prems(1) obtain c cs' where cs: "cs = c # cs'"
    and x: "season_count rt http base_url apikey x = Inr c"
    and pre: "map (season_count rt http base_url apikey) pre = map Inr cs'"
    by (cases cs) auto
  from Cons.IH[OF pre Cons.prems(2), of "tot + c"] x cs show ?case
    by (simp add: add.assoc)
qed

lemma count_available_total:
  "\<exists>n. count_available_episodes rt http base_url apikey key = Inr n"
  by (simp add: count_available_episodes_def split: sum.splits option.splits prod.splits)

text \<open>
  C7, as the code has it: the fast path fails, the first season reports
  \<^verbatim>\<open>children_count\<close> -7, the second has four episodes and the third request fails. The
  function returns -3.
\<close>

theorem negative_partial_sum:
  "fast_path example_rt (example_http (JInt (- 7))) ''http://t/'' ''k'' ''show1''
     = Inl TransportError
   \<and> season_count example_rt (example_http (JInt (- 7))) ''http://t/'' ''k''
       (JDict [(''rating_key'', JStr ''s3'')]) = Inl TransportError
   \<and> count_available_episodes example_rt (example_http (JInt (- 7))) ''http://t/'' ''k''
       ''show1'' = Inr (- 3)"
  by (simp add: api_eval)

text \<open>
  C7, amended: \<^verbatim>\<open>count_available_episodes\<close> always returns an integer and never
  raises. When the fast path returns nothing, the seasons are \<open>pre\<close>, \<open>s\<close> and
  \<open>post\<close>, the seasons of \<open>pre\<close> count \<open>cs\<close> and the turn of \<open>s\<close> raises, it
  returns the sum of \<open>cs\<close>; the sum is not negative when no count of \<open>cs\<close> is.
\<close>

theorem partial_sum_returned:
  "(\<exists>n. count_available_episodes rt http base_url apikey key = Inr n)
   \<and> ((\<forall>n. fast_path rt http base_url apikey key \<noteq> Inr (Some n))
        \<and> call_api http base_url apikey ''get_children_metadata''
             [(''rating_key'', JStr key), (''media_type'', JStr ''show'')] = Inr seasons
        \<and> py_iter (season_list_of seasons) = Inr (pre @ s # post)
        \<and> map (season_count rt http base_url apikey) pre = map Inr cs
        \<and> season_count rt http base_url apikey s = Inl e
      \<longrightarrow> count_available_episodes rt http base_url apikey key = Inr (sum_list cs)
          \<and> ((\<forall>c\<in>set cs. 0 \<le> c) \<longrightarrow> 0 \<le> sum_list cs))"
proof (intro conjI impI)
  show "\<exists>n. count_available_episodes rt http base_url apikey key = Inr n"
    by (rule count_available_total)
next
  assume a: "(\<forall>n. fast_path rt http base_url apikey key \<noteq> Inr (Some n))
        \<and> call_api http base_url apikey ''get_children_metadata''
             [(''rating_key'', JStr key), (''media_type'', JStr ''show'')] = Inr seasons
        \<and> py_iter (season_list_of seasons) = Inr (pre @ s # post)
        \<and> map (season_count rt http base_url apikey) pre = map Inr cs
        \<and> season_count rt http base_url apikey s = Inl e"
  then have "season_loop rt http base_url apikey 0 (pre @ s # post) = (0 + sum_list cs, Some e)"
    by (intro season_loop_partial) simp_all
  with a have "fallback rt http base_url apikey key = (sum_list cs, Some e)"
    by (simp add: fallback_def)
  with a show "count_available_episodes rt http base_url apikey key = Inr (sum_list cs)"
    by (auto simp: count_available_episodes_def split: sum.splits option.splits)
next
  assume "\<forall>c\<in>set cs. 0 \<le> c"
  then show "0 \<le> sum_list cs"
    by (simp add: sum_list_nonneg)
qed

theorem partial_sum_returned_witness:
  "count_available_episodes example_rt (example_http (JInt 5)) ''http://t/'' ''k'' ''show1''
   = Inr 9"
  using partial_sum_returned
    [of example_rt "example_http (JInt 5)" "''http://t/''" "''k''" "''show1''"
        "JList [JDict [(''rating_key'', JStr ''s1'')], JDict [(''rating_key'', JStr ''s2'')],
                JDict [(''rating_key'', JStr ''s3'')]]"
        "[JDict [(''rating_key'', JStr ''s1'')], JDict [(''rating_key'', JStr ''s2'')]]"
        "JDict [(''rating_key'', JStr ''s3'')]" "[]" "[5, 4]" TransportError]
  by (simp add: api_eval)

text \<open>The fast path of the spec's scenario: a leaf count of 10 is the result.\<close>

lemma leaf_count_returned:
  "count_available_episodes example_rt (example_http (JInt 10)) ''http://t/'' ''k'' ''show2''
   = Inr 10"
  by (simp add: api_eval)




end
